theory Spec2Isabelle
  imports Complex_Main
begin

section \<open>Python values, dictionaries and rounding\<close>

text \<open>
  The coordinator of a battery publishes its latest telemetry as a dictionary from
  register keys to values (\<^verbatim>\<open>coordinator.data\<close>), or \<^verbatim>\<open>None\<close> before the first
  successful refresh. The values read here are numbers; a key may be missing, and a key
  may hold \<^verbatim>\<open>None\<close>. Numbers are modelled as exact rationals: Python's \<^verbatim>\<open>int\<close> is
  embedded exactly, and its \<^verbatim>\<open>float\<close> is idealised (no binary rounding error in
  \<^verbatim>\<open>+\<close>, \<^verbatim>\<open>*\<close>, \<^verbatim>\<open>/\<close>). Every statement below is about this idealisation.
\<close>

datatype pyval = PyNone | Num rat

datatype py_error = TypeError | ZeroDivisionError

type_synonym pydict = "(string \<times> pyval) list"

text \<open>\<^verbatim>\<open>d.get(key)\<close>: the value stored under the key, \<^verbatim>\<open>None\<close> when the key is missing.\<close>

definition dict_get :: "pydict \<Rightarrow> string \<Rightarrow> pyval" where
  "dict_get d k = (case map_of d k of None \<Rightarrow> PyNone | Some v \<Rightarrow> v)"

text \<open>\<^verbatim>\<open>d.get(key, default)\<close>: the default replaces a missing key only, not a stored \<^verbatim>\<open>None\<close>.\<close>

definition dict_get_default :: "pydict \<Rightarrow> string \<Rightarrow> pyval \<Rightarrow> pyval" where
  "dict_get_default d k dflt = (case map_of d k of None \<Rightarrow> dflt | Some v \<Rightarrow> v)"

text \<open>
  \<^verbatim>\<open>round(x, ndigits)\<close> rounds to the nearest multiple of \<open>10 ^ (- ndigits)\<close>, a tie going
  to the even neighbour.
\<close>

definition round_half_even :: "rat \<Rightarrow> int" where
  "round_half_even x =
     (let f = \<lfloor>x\<rfloor>; d = x - of_int f
      in if d < 1 / 2 then f
         else if 1 / 2 < d then f + 1
         else if even f then f else f + 1)"

definition py_round :: "rat \<Rightarrow> nat \<Rightarrow> rat" where
  "py_round x ndigits = of_int (round_half_even (x * 10 ^ ndigits)) / 10 ^ ndigits"


section \<open>Coordinators and the aggregate sensor\<close>

text \<open>
  Of a \<^verbatim>\<open>MarstekVenusDataUpdateCoordinator\<close> the sensors read the name, the data
  dictionary and the hysteresis flag.
\<close>

record coordinator =
  name :: string
  data :: "pydict option"
  hysteresis_active :: bool

text \<open>
  \<^verbatim>\<open>coordinator.data.get(key)\<close> behind the guard \<^verbatim>\<open>if coordinator.data:\<close> (the data is
  neither \<^verbatim>\<open>None\<close> nor an empty dictionary) and the test \<^verbatim>\<open>is not None\<close>: the number a
  battery reports under a key, if it reports one.
\<close>

definition reported :: "string \<Rightarrow> coordinator \<Rightarrow> rat option" where
  "reported k c =
     (case data c of
        None \<Rightarrow> None
      | Some d \<Rightarrow>
          if d = [] then None
          else (case dict_get d k of PyNone \<Rightarrow> None | Num x \<Rightarrow> Some x))"

text \<open>An entry of \<^verbatim>\<open>AGGREGATE_SENSOR_DEFINITIONS\<close>: its key and its precision, when it has one.\<close>

record sensor_definition =
  key :: string
  precision :: "nat option"


record aggregate_sensor =
  coordinators :: "coordinator list"
  defn :: sensor_definition


subsection \<open>Average state of charge\<close>



subsection \<open>Charge and discharge power\<close>






subsection \<open>Energy totals\<close>

text \<open>
  The capacity total and the two daily totals run the same loop over one key each:
  every reported value is added and sets \<^verbatim>\<open>has_data\<close>.
\<close>

definition energy_body :: "string \<Rightarrow> rat \<times> bool \<Rightarrow> coordinator \<Rightarrow> rat \<times> bool" where
  "energy_body k acc c =
     (case acc of (total_energy, has_data) \<Rightarrow>
        (case reported k c of
           None \<Rightarrow> (total_energy, has_data)
         | Some energy \<Rightarrow> (total_energy + energy, True)))"




subsection \<open>Stored energy\<close>



subsection \<open>The sensor's value and availability\<close>



text \<open>\<^verbatim>\<open>any(coordinator.data is not None for coordinator in self.coordinators)\<close>\<close>

definition available :: "aggregate_sensor \<Rightarrow> bool" where
  "available s = list_ex (\<lambda>c. data c \<noteq> None) (coordinators s)"

subsection \<open>The totals as the specification words them\<close>

text \<open>
  The values that the batteries report under a key, in the order of the coordinators:
  the specification's "present" values.
\<close>

definition present :: "string \<Rightarrow> coordinator list \<Rightarrow> rat list" where
  "present k cs = List.map_filter (reported k) cs"


section \<open>Calculated sensors of one battery\<close>



record stored_energy_sensor =
  se_coordinator :: coordinator
  soc_key :: string
  capacity_key :: string

definition stored_energy_native_value :: "stored_energy_sensor \<Rightarrow> py_error + rat option" where
  "stored_energy_native_value s =
     (case data (se_coordinator s) of
        None \<Rightarrow> Inr None
      | Some d \<Rightarrow>
          (let soc = dict_get_default d (soc_key s) (Num 0);
               capacity = dict_get_default d (capacity_key s) (Num 0)
           in case capacity of
                PyNone \<Rightarrow> Inl TypeError
              | Num cap \<Rightarrow>
                  if cap \<le> 0 then Inr None
                  else (case soc of
                          PyNone \<Rightarrow> Inl TypeError
                        | Num sc \<Rightarrow> Inr (Some (py_round ((sc / 100) * cap) 3)))))"

section \<open>Charge hysteresis: restoring the flag\<close>

text \<open>
  \<^verbatim>\<open>async_added_to_hass\<close> receives the last persisted state of the entity (its state
  string), or \<^verbatim>\<open>None\<close> when there is none, and writes the coordinator's flag.
\<close>

definition async_added_to_hass :: "string option \<Rightarrow> coordinator \<Rightarrow> coordinator" where
  "async_added_to_hass last_state c =
     (case last_state of
        None \<Rightarrow> c
      | Some st \<Rightarrow> c\<lparr>hysteresis_active := (st = ''on'')\<rparr>)"

definition hysteresis_is_on :: "coordinator \<Rightarrow> bool" where
  "hysteresis_is_on c = hysteresis_active c"

text \<open>
  Modelled from the spec: the coordinator's constructor is not among the sources. The
  hysteresis state is created with the default \<open>false\<close> (inactive) on a cold start.
\<close>

definition cold_start :: "string \<Rightarrow> coordinator" where
  "cold_start n = \<lparr>name = n, data = None, hysteresis_active = False\<rparr>"

section \<open>The predictive charging decision\<close>

text \<open>
  The status sensor reads \<^verbatim>\<open>controller.grid_charging_active\<close>, the override flag and the
  last decision data of a controller. The records below are the controller's inputs and
  its verdict as section 3 of the specification lists them; a quantity of the decision
  record that cannot be computed from the inputs at hand is unknown (\<^verbatim>\<open>None\<close>).
\<close>

record aggregate_state =
  total_stored_energy :: "rat option"
  total_energy_capacity :: "rat option"

record controller_config =
  cfg_effective_min_soc :: rat
  cutoff_rule :: "rat \<Rightarrow> rat \<Rightarrow> rat"

record decision_record =
  stored_energy_kwh :: "rat option"
  usable_energy_kwh :: "rat option"
  min_reserve_kwh :: "rat option"
  cutoff_energy_kwh :: "rat option"
  effective_min_soc :: rat
  avg_consumption_kwh :: "rat option"
  total_available_kwh :: "rat option"
  energy_deficit_kwh :: "rat option"
  solar_forecast_kwh :: rat
  reason :: string

record grid_charge_decision =
  grid_charging_active :: bool
  in_charging_slot :: bool
  overridden :: bool
  decision :: decision_record

text \<open>A comparison with an unknown quantity does not hold.\<close>

definition known_less :: "rat option \<Rightarrow> rat option \<Rightarrow> bool" where
  "known_less a b = (case (a, b) of (Some x, Some y) \<Rightarrow> x < y | _ \<Rightarrow> False)"

text \<open>
  Modelled from the spec: the controller that evaluates predictive charging is not among
  the sources. The definition follows section 4.4 of the specification step by step. Two
  inputs are taken as given: \<open>in_slot\<close>, the result of step 1 (the time windows and the
  clock are not modelled), and \<open>cutoff_rule\<close>, the function of the minimum reserve and the
  deficit that step 5 leaves open. The override is \<^verbatim>\<open>None\<close> when there is none and carries
  the forced value otherwise. A missing stored-energy total is treated like the two
  missing inputs of step 7 (absent inputs degrade to never charge). The function is
  total: evaluation raises nothing.
\<close>

definition evaluate_predictive_charging ::
  "controller_config \<Rightarrow> bool \<Rightarrow> aggregate_state \<Rightarrow> rat option \<Rightarrow> rat option \<Rightarrow> bool option
     \<Rightarrow> grid_charge_decision" where
  "evaluate_predictive_charging cfg in_slot agg avg_consumption solar_forecast override =
     (let stored = total_stored_energy agg;
          capacity = total_energy_capacity agg;
          min_reserve = map_option (\<lambda>cap. cfg_effective_min_soc cfg / 100 * cap) capacity;
          usable = (case (stored, min_reserve) of
                      (Some st, Some mr) \<Rightarrow> Some (max 0 (st - mr))
                    | _ \<Rightarrow> None);
          solar = (case solar_forecast of None \<Rightarrow> 0 | Some f \<Rightarrow> f);
          total_available = map_option (\<lambda>u. u + solar) usable;
          deficit = (case (avg_consumption, total_available) of
                       (Some a, Some t) \<Rightarrow> Some (max 0 (a - t))
                     | _ \<Rightarrow> None);
          cutoff = (case (min_reserve, deficit) of
                      (Some mr, Some df) \<Rightarrow> Some (cutoff_rule cfg mr df)
                    | _ \<Rightarrow> None);
          insufficient = (avg_consumption = None \<or> capacity = None \<or> stored = None);
          computed = (\<not> insufficient \<and> in_slot \<and> known_less stored cutoff
                      \<and> known_less (Some 0) deficit)
      in \<lparr>grid_charging_active = (case override of None \<Rightarrow> computed | Some forced \<Rightarrow> forced),
          in_charging_slot = in_slot,
          overridden = (override \<noteq> None),
          decision =
            \<lparr>stored_energy_kwh = stored,
             usable_energy_kwh = usable,
             min_reserve_kwh = min_reserve,
             cutoff_energy_kwh = cutoff,
             effective_min_soc = cfg_effective_min_soc cfg,
             avg_consumption_kwh = avg_consumption,
             total_available_kwh = total_available,
             energy_deficit_kwh = deficit,
             solar_forecast_kwh = solar,
             reason =
               (if insufficient then ''insufficient data''
                else if \<not> in_slot then ''outside charging window''
                else if computed then ''deficit projected, in slot, stored energy below cutoff''
                else ''sufficient stored energy'')\<rparr>\<rparr>)"

definition example_config :: controller_config where
  "example_config = \<lparr>cfg_effective_min_soc = 20, cutoff_rule = (+)\<rparr>"

definition example_aggregate :: aggregate_state where
  "example_aggregate = \<lparr>total_stored_energy = Some (5 / 2), total_energy_capacity = Some 10\<rparr>"

section \<open>An example fleet\<close>








section \<open>Rounding\<close>








section \<open>Closed forms of the accumulations\<close>

lemma present_simps:
  "present k [] = []"
  "present k (c # cs) =
     (case reported k c of None \<Rightarrow> present k cs | Some x \<Rightarrow> x # present k cs)"
  by (simp_all add: present_def List.map_filter_simps split: option.splits)








lemma foldl_energy:
  "foldl (energy_body k) (t, h) cs = (t + sum_list (present k cs), h \<or> present k cs \<noteq> [])"
  by (induction cs arbitrary: t h)
     (simp_all add: present_simps energy_body_def split: option.splits)











lemma known_less_simps:
  "known_less None b = False" "known_less a None = False"
  "known_less (Some x) (Some y) = (x < y)"
  by (simp_all add: known_less_def split: option.splits)

section \<open>Availability of the aggregate\<close>

text \<open>
  C8. The aggregate sensor is available if and only if at least one coordinator's data
  is not \<^verbatim>\<open>None\<close>, that is, at least one battery has a snapshot.
\<close>

theorem available_iff_some_snapshot:
  "available s \<longleftrightarrow> (\<exists>c \<in> set (coordinators s). data c \<noteq> None)"
  by (simp add: available_def list_ex_iff)

theorem available_iff_some_snapshot_witness:
  "available \<lparr>coordinators = [\<lparr>name = ''b1'', data = None, hysteresis_active = False\<rparr>,
                               \<lparr>name = ''b2'', data = Some [], hysteresis_active = False\<rparr>],
             defn = \<lparr>key = ''system_soc'', precision = Some 0\<rparr>\<rparr>
   \<and> \<not> available \<lparr>coordinators = [\<lparr>name = ''b1'', data = None, hysteresis_active = False\<rparr>],
             defn = \<lparr>key = ''system_soc'', precision = Some 0\<rparr>\<rparr>"
  using available_iff_some_snapshot
    [of "\<lparr>coordinators = [\<lparr>name = ''b1'', data = None, hysteresis_active = False\<rparr>,
                            \<lparr>name = ''b2'', data = Some [], hysteresis_active = False\<rparr>],
          defn = \<lparr>key = ''system_soc'', precision = Some 0\<rparr>\<rparr>"]
    available_iff_some_snapshot
    [of "\<lparr>coordinators = [\<lparr>name = ''b1'', data = None, hysteresis_active = False\<rparr>],
          defn = \<lparr>key = ''system_soc'', precision = Some 0\<rparr>\<rparr>"]
  by simp

section \<open>Power totals\<close>





section \<open>Stored energy\<close>



section \<open>Average state of charge\<close>




section \<open>Purity of the aggregate\<close>



section \<open>Stored energy of one battery\<close>



text \<open>A capacity key that holds \<^verbatim>\<open>None\<close> makes the comparison raise.\<close>

lemma stored_energy_native_value_stored_None:
  "data (se_coordinator s) = Some d \<Longrightarrow> map_of d (capacity_key s) = Some PyNone
     \<Longrightarrow> stored_energy_native_value s = Inl TypeError"
  by (simp add: stored_energy_native_value_def dict_get_default_def Let_def)

section \<open>Efficiency of one battery\<close>



section \<open>Restoring the hysteresis flag\<close>

text \<open>
  C6. On a cold start the hysteresis flag is inactive. Without a restored state the flag
  is left as it is; with a restored state the flag becomes active if and only if the
  persisted state reads \<^verbatim>\<open>on\<close>, whatever it was before, and nothing else of the coordinator
  changes. So after startup the flag is active exactly when a state \<^verbatim>\<open>on\<close> was restored.
\<close>

theorem restore_hysteresis_state:
  "async_added_to_hass None c = c
   \<and> hysteresis_is_on (async_added_to_hass None (cold_start n)) = False
   \<and> hysteresis_is_on (async_added_to_hass (Some st) c) = (st = ''on'')
   \<and> hysteresis_is_on (async_added_to_hass last_state (cold_start n)) = (last_state = Some ''on'')
   \<and> name (async_added_to_hass last_state c) = name c
   \<and> data (async_added_to_hass last_state c) = data c"
  by (simp add: async_added_to_hass_def hysteresis_is_on_def cold_start_def split: option.splits)


theorem restore_hysteresis_state_witness:
  "hysteresis_is_on (async_added_to_hass (Some ''on'') (cold_start ''a''))
   \<and> \<not> hysteresis_is_on (async_added_to_hass (Some ''off'') (cold_start ''a''))
   \<and> \<not> hysteresis_is_on (async_added_to_hass None (cold_start ''a''))
   \<and> \<not> hysteresis_is_on
         (async_added_to_hass (Some ''unavailable'') (cold_start ''a''\<lparr>hysteresis_active := True\<rparr>))"
  using restore_hysteresis_state [of "cold_start ''a''" "''a''" "''on''" "Some ''on''"]
    restore_hysteresis_state [of "cold_start ''a''" "''a''" "''off''" None]
    restore_hysteresis_state
      [of "cold_start ''a''\<lparr>hysteresis_active := True\<rparr>" "''a''" "''unavailable''" None]
  by simp


section \<open>The decision and the override\<close>

text \<open>
  C1. On every evaluation, without an override \<open>grid_charging_active\<close> is
  \<open>in_charging_slot\<close> and stored energy below the cutoff and a positive deficit (the
  quantities as recorded, an unknown one making its comparison false); with an override
  \<open>grid_charging_active\<close> is the forced value; and the decision record is the one of the
  evaluation without the override, so it shows the unforced quantities.
\<close>

theorem override_wins_and_record_unforced:
  "(override = None \<longrightarrow>
      \<not> overridden (evaluate_predictive_charging cfg in_slot agg avg solar override)
      \<and> grid_charging_active (evaluate_predictive_charging cfg in_slot agg avg solar override) =
          (in_charging_slot (evaluate_predictive_charging cfg in_slot agg avg solar override)
           \<and> known_less (total_stored_energy agg)
                (cutoff_energy_kwh (decision (evaluate_predictive_charging cfg in_slot agg avg solar override)))
           \<and> known_less (Some 0)
                (energy_deficit_kwh (decision (evaluate_predictive_charging cfg in_slot agg avg solar override)))))
   \<and> (\<forall>forced. override = Some forced \<longrightarrow>
        overridden (evaluate_predictive_charging cfg in_slot agg avg solar override)
        \<and> grid_charging_active (evaluate_predictive_charging cfg in_slot agg avg solar override) = forced)
   \<and> decision (evaluate_predictive_charging cfg in_slot agg avg solar override)
       = decision (evaluate_predictive_charging cfg in_slot agg avg solar None)
   \<and> in_charging_slot (evaluate_predictive_charging cfg in_slot agg avg solar override) = in_slot
   \<and> stored_energy_kwh (decision (evaluate_predictive_charging cfg in_slot agg avg solar override))
       = total_stored_energy agg"
  by (auto simp add: evaluate_predictive_charging_def Let_def known_less_simps split: option.splits)

theorem override_wins_and_record_unforced_witness:
  "grid_charging_active
     (evaluate_predictive_charging example_config True example_aggregate (Some 4) None None)
   \<and> \<not> grid_charging_active
     (evaluate_predictive_charging example_config True example_aggregate (Some 4) None (Some False))
   \<and> \<not> grid_charging_active
     (evaluate_predictive_charging example_config False example_aggregate (Some 4) None None)
   \<and> grid_charging_active
     (evaluate_predictive_charging example_config False example_aggregate (Some 4) None (Some True))
   \<and> cutoff_energy_kwh (decision
        (evaluate_predictive_charging example_config True example_aggregate (Some 4) None (Some False)))
      = Some (11 / 2)
   \<and> energy_deficit_kwh (decision
        (evaluate_predictive_charging example_config True example_aggregate (Some 4) None (Some False)))
      = Some (7 / 2)"
  using override_wins_and_record_unforced
      [of None example_config True example_aggregate "Some 4" None]
    override_wins_and_record_unforced
      [of "Some False" example_config True example_aggregate "Some 4" None]
    override_wins_and_record_unforced
      [of None example_config False example_aggregate "Some 4" None]
    override_wins_and_record_unforced
      [of "Some True" example_config False example_aggregate "Some 4" None]
  by (simp add: evaluate_predictive_charging_def Let_def known_less_simps
      example_config_def example_aggregate_def)

section \<open>Missing data\<close>






end
